theory Spec2Isabelle
  imports Main
begin

section \<open>Exchange rates of the last days: the program of exchange\_rate\_app.py\<close>

text \<open>
  The program asks for a number of days, downloads one table of exchange rates of the
  Polish national bank per day, prints the euro and dollar rows of each day, and then
  answers questions about other currencies until the user declines.

  Conventions of the embedding.
  \<^item> A Python \<open>str\<close> is a \<open>string\<close>; one character stands for one code point below 256.
  \<^item> A date is its proleptic Gregorian ordinal (\<open>date.toordinal()\<close>), an \<open>int\<close>; the
    module constant \<open>TODAY\<close> is the parameter \<open>today\<close> of every function that reads it.
    Python's dates end at the years 1 and 9999; the program stays within a few days of
    the clock, and the range errors of \<open>datetime\<close> are not modelled.
  \<^item> A response body is taken to be JSON of the shape the bank's API documents: an array
    of table objects, each with a field \<open>rates\<close>, an array of objects with the fields
    \<open>currency\<close>, \<open>code\<close> (both text) and \<open>mid\<close> (a number). The number is never
    computed with, only printed, and is kept as the text \<open>str()\<close> gives for it.
  \<^item> Everything the program writes or requests is an event of its trace, in order.
  \<^item> The lines typed by the user are a list; \<open>input()\<close> on the empty list is end of
    file and raises \<open>EOFError\<close>.
\<close>

subsection \<open>Data\<close>

record currency_rate =
  currency :: string
  code :: string
  mid :: string

record table =
  rates :: "currency_rate list"

type_synonym rate_table = "table list"

text \<open>One slot of the results: \<open>None\<close> (HTTP 404) or the parsed body.\<close>

type_synonym result = "rate_table option"

datatype error =
    RuntimeError string
  | ValueError string
  | InvalidLiteral string  \<comment> \<open>the \<open>ValueError\<close> of \<open>int()\<close> on this text\<close>
  | EOFError

datatype event =
    Line string        \<comment> \<open>\<open>print(s)\<close>\<close>
  | Prompt string      \<comment> \<open>the prompt written by \<open>input(s)\<close>\<close>
  | ErrorLine error    \<comment> \<open>\<open>print(f"Error: {e}")\<close>\<close>
  | Get string         \<comment> \<open>an HTTP GET of this URL\<close>

record response =
  status :: int
  json :: rate_table

type_synonym network = "string \<Rightarrow> response"

subsection \<open>Text of numbers and dates\<close>

definition digit_char :: "nat \<Rightarrow> char" where
  "digit_char d = ''0123456789'' ! d"

function str_nat :: "nat \<Rightarrow> string" where
  "str_nat n = (if n < 10 then [digit_char n] else str_nat (n div 10) @ [digit_char (n mod 10)])"
  by pat_completeness auto
termination
  by (relation "measure id") auto

declare str_nat.simps [simp del]

definition str_int :: "int \<Rightarrow> string" where
  "str_int i = (if i < 0 then CHR ''-'' # str_nat (nat (- i)) else str_nat (nat i))"

text \<open>\<open>'%0wd' % n\<close> for a number that is not negative.\<close>

definition zero_pad :: "nat \<Rightarrow> int \<Rightarrow> string" where
  "zero_pad w n = (let s = str_int n in replicate (w - length s) CHR ''0'' @ s)"

definition days_before_month :: "int \<Rightarrow> int" where
  "days_before_month m = [0, 0, 31, 59, 90, 120, 151, 181, 212, 243, 273, 304, 334] ! nat m"

definition days_in_month :: "int \<Rightarrow> int" where
  "days_in_month m = [0, 31, 28, 31, 30, 31, 30, 31, 31, 30, 31, 30, 31] ! nat m"

text \<open>
  Year, month and day of an ordinal, as \<open>datetime\<close> computes them: cycles of 400,
  100, 4 and 1 years, then an estimate of the month that is corrected once.
\<close>

definition ord2ymd :: "int \<Rightarrow> int \<times> int \<times> int" where
  "ord2ymd n0 =
     (let n = n0 - 1;
          n400 = n div 146097; n = n mod 146097;
          n100 = n div 36524; n = n mod 36524;
          n4 = n div 1461; n = n mod 1461;
          n1 = n div 365; n = n mod 365;
          year = n400 * 400 + 1 + n100 * 100 + n4 * 4 + n1
      in if n1 = 4 \<or> n100 = 4 then (year - 1, 12, 31)
         else
           let leapyear = (n1 = 3 \<and> (n4 \<noteq> 24 \<or> n100 = 3));
               month = (n + 50) div 32;
               preceding = days_before_month month + (if month > 2 \<and> leapyear then 1 else 0)
           in if preceding > n
              then let month' = month - 1;
                       preceding' = preceding
                         - (days_in_month month' + (if month' = 2 \<and> leapyear then 1 else 0))
                   in (year, month', n - preceding' + 1)
              else (year, month, n - preceding + 1))"

text \<open>\<open>strftime("%Y-%m-%d")\<close> and \<open>str()\<close> of a date: the ISO form.\<close>

definition iso_date :: "int \<Rightarrow> string" where
  "iso_date n = (case ord2ymd n of (y, m, d) \<Rightarrow>
     zero_pad 4 y @ ''-'' @ zero_pad 2 m @ ''-'' @ zero_pad 2 d)"

subsection \<open>The provider\<close>

definition API_URL :: string where
  "API_URL = ''https://api.nbp.pl/api/exchangerates/tables/a/''"

text \<open>
  \<open>NBPRateProvider.get_rates\<close>: one GET; the body on 200, \<open>None\<close> on 404, and
  a \<open>RuntimeError\<close> naming the status otherwise.
\<close>

definition get_rates :: "network \<Rightarrow> string \<Rightarrow> event list \<times> (error + result)" where
  "get_rates net date =
     (let url = API_URL @ date @ ''?format=json'';
          response = net url
      in ([Get url],
          if status response = 200 then Inr (Some (json response))
          else if status response = 404 then Inr None
          else Inl (RuntimeError (''Data download error: '' @ str_int (status response)))))"

subsection \<open>Text helpers\<close>

text \<open>The format specification \<open>:w\<close> on text: padded on the right with blanks, never cut.\<close>

definition ljust :: "nat \<Rightarrow> string \<Rightarrow> string" where
  "ljust w s = s @ replicate (w - length s) CHR '' ''"

text \<open>
  \<open>str.upper()\<close>. The letters a to z are the only code points below 128 that it
  changes; what Python does to a small letter beyond 127 is not modelled.
\<close>

definition upper_char :: "char \<Rightarrow> char" where
  "upper_char c =
     (let n = (of_char c :: nat) in if 97 \<le> n \<and> n \<le> 122 then char_of (n - 32) else c)"

definition upper :: "string \<Rightarrow> string" where
  "upper s = map upper_char s"

text \<open>
  \<open>int(s)\<close> in base 10: blanks around the number are dropped, a sign may lead, and
  single underscores may stand between digits. \<open>None\<close> is the \<open>ValueError\<close>.
  Digits of other scripts, which Python reads too, lie beyond code point 255, and the
  limit on the length of the numeral that newer interpreters impose is left out.
\<close>

definition is_space :: "char \<Rightarrow> bool" where
  "is_space c = ((of_char c :: nat) \<in> {9, 10, 11, 12, 13, 32, 133, 160})"

definition strip :: "string \<Rightarrow> string" where
  "strip s = rev (dropWhile is_space (rev (dropWhile is_space s)))"

definition is_digit :: "char \<Rightarrow> bool" where
  "is_digit c = (let n = (of_char c :: nat) in 48 \<le> n \<and> n \<le> 57)"

definition digit_val :: "char \<Rightarrow> nat" where
  "digit_val c = of_char c - 48"

fun parse_digits :: "nat \<Rightarrow> string \<Rightarrow> nat option" where
  "parse_digits acc [] = Some acc"
| "parse_digits acc [c] = (if is_digit c then Some (10 * acc + digit_val c) else None)"
| "parse_digits acc (c # d # cs) =
     (if is_digit c then parse_digits (10 * acc + digit_val c) (d # cs)
      else if c = CHR ''_'' \<and> is_digit d then parse_digits (10 * acc + digit_val d) cs
      else None)"

definition py_int :: "string \<Rightarrow> int option" where
  "py_int s =
     (let t = strip s;
          (neg, body) = (case t of
               [] \<Rightarrow> (False, t)
             | c # r \<Rightarrow> if c = CHR ''-'' then (True, r)
                        else if c = CHR ''+'' then (False, r) else (False, t))
      in case body of
           [] \<Rightarrow> None
         | c # cs \<Rightarrow>
             if is_digit c
             then map_option (\<lambda>n. if neg then - int n else int n) (parse_digits (digit_val c) cs)
             else None)"

subsection \<open>The two displays\<close>

text \<open>The row of one currency: name in 36 columns, code in 4, then the rate.\<close>

definition format_rate :: "currency_rate \<Rightarrow> string" where
  "format_rate c = ljust 36 (currency c) @ '' '' @ ljust 4 (code c) @ '' '' @ mid c"

text \<open>The header of the \<open>i\<close>-th day, \<open>i\<close> counted from 1 as \<open>enumerate(results, 1)\<close> does.\<close>

definition day_header :: "int \<Rightarrow> nat \<Rightarrow> event" where
  "day_header today i = Line (''Data as of day '' @ iso_date (today - (int i - 1)) @ '':'')"

text \<open>\<open>if result and result != []\<close>: the slot is neither \<open>None\<close> nor an empty list.\<close>

fun has_data :: "result \<Rightarrow> bool" where
  "has_data None = False"
| "has_data (Some []) = False"
| "has_data (Some (t # ts)) = True"

text \<open>\<open>result[0]["rates"]\<close>, read only where \<open>has_data\<close> holds.\<close>

fun first_rates :: "result \<Rightarrow> currency_rate list" where
  "first_rates (Some (t # ts)) = rates t"
| "first_rates _ = []"

text \<open>The inner loop of \<open>display_basic_currencies\<close>: a row for each euro or dollar entry.\<close>

fun basic_rows :: "currency_rate list \<Rightarrow> event list" where
  "basic_rows [] = []"
| "basic_rows (c # cs) =
     (if code c \<in> {''EUR'', ''USD''} then Line (format_rate c) # basic_rows cs
      else basic_rows cs)"

text \<open>Its outer loop, over \<open>enumerate(results, 1)\<close>.\<close>

fun basic_days :: "int \<Rightarrow> nat \<Rightarrow> result list \<Rightarrow> event list" where
  "basic_days today i [] = []"
| "basic_days today i (result # results) =
     day_header today i
       # (if has_data result then basic_rows (first_rates result) else [Line ''No data.''])
       @ Line [] # basic_days today (Suc i) results"

definition display_basic_currencies :: "int \<Rightarrow> result list \<Rightarrow> event list" where
  "display_basic_currencies today results =
     (if results = [] then [Line ''No data available.'']
      else basic_days today 1 results)"

text \<open>The inner loop of \<open>display_additional_currencies\<close>, which stops at the first match.\<close>

fun additional_rows :: "string \<Rightarrow> currency_rate list \<Rightarrow> event list" where
  "additional_rows currency_choice [] = []"
| "additional_rows currency_choice (c # cs) =
     (if code c = currency_choice then [Line (format_rate c)]
      else additional_rows currency_choice cs)"

fun additional_days :: "int \<Rightarrow> string \<Rightarrow> nat \<Rightarrow> result list \<Rightarrow> event list" where
  "additional_days today currency_choice i [] = []"
| "additional_days today currency_choice i (result # results) =
     day_header today i
       # (if has_data result then additional_rows currency_choice (first_rates result)
          else [Line ''No data.''])
       @ Line [] # additional_days today currency_choice (Suc i) results"

text \<open>\<open>', '.join(xs)\<close>.\<close>

fun join_comma :: "string list \<Rightarrow> string" where
  "join_comma [] = []"
| "join_comma [x] = x"
| "join_comma (x # y # ys) = x @ '', '' @ join_comma (y # ys)"

definition currency_prompt :: "string list \<Rightarrow> string" where
  "currency_prompt available =
     ''Enter the currency abbreviation (available: '' @ join_comma available @ ''): ''"

text \<open>
  \<open>display_additional_currencies\<close>. The set of codes is a list without repetitions;
  its order stands for the order in which Python iterates the set, which shows in the
  prompt only. The function reads at most one line and returns the lines left.
\<close>

definition display_additional_currencies ::
  "int \<Rightarrow> string list \<Rightarrow> result list \<Rightarrow> string list
     \<Rightarrow> event list \<times> string list \<times> (error + unit)" where
  "display_additional_currencies today available_currencies_set results ins =
     (if available_currencies_set = []
      then ([Line ''No additional currencies available.''], ins, Inr ())
      else case ins of
          [] \<Rightarrow> ([Prompt (currency_prompt available_currencies_set)], [], Inl EOFError)
        | s # rest \<Rightarrow>
            let currency_choice = upper s
            in if currency_choice \<in> set available_currencies_set
               then (Prompt (currency_prompt available_currencies_set)
                       # additional_days today currency_choice 1 results, rest, Inr ())
               else ([Prompt (currency_prompt available_currencies_set),
                      Line ''There is no such currency on the list.''], rest, Inr ()))"

subsection \<open>Waiting for all calls\<close>

text \<open>
  \<open>asyncio.gather(*tasks)\<close>. Every call is started in the order given and runs up to
  its request. The answers then arrive in an order the program does not choose:
  \<open>picks\<close> says at each step which of the calls still pending completes next (its
  head, modulo the number of pending calls; 0 once it is used up). The first call that
  completes with an exception makes \<open>gather\<close> raise it. When every call has completed,
  the results are read off the calls in the order they were given
  (\<open>[fut.result() for fut in children]\<close>).
\<close>

fun results_of :: "(error + 'a) list \<Rightarrow> error + 'a list" where
  "results_of [] = Inr []"
| "results_of (Inl e # children) = Inl e"
| "results_of (Inr v # children) =
     (case results_of children of Inl e \<Rightarrow> Inl e | Inr vs \<Rightarrow> Inr (v # vs))"

function gather_run ::
  "nat list \<Rightarrow> (error + 'a) list \<Rightarrow> (error + 'a) list \<Rightarrow> error + 'a list" where
  "gather_run picks pending children =
     (if pending = [] then results_of children
      else
        let k = (case picks of [] \<Rightarrow> 0 | p # _ \<Rightarrow> p) mod length pending
        in case pending ! k of
             Inl e \<Rightarrow> Inl e
           | Inr v \<Rightarrow> gather_run (tl picks) (take k pending @ drop (Suc k) pending) children)"
  by pat_completeness auto
termination
proof (relation "measure (\<lambda>(picks, pending, children). length pending)", goal_cases)
  case 1
  show ?case by simp
next
  case (2 picks pending children k v)
  from 2(1) have "0 < length pending" by simp
  then have "k < length pending" unfolding 2(2) by (rule mod_less_divisor)
  then show ?case by simp
qed

declare gather_run.simps [simp del]

definition gather ::
  "nat list \<Rightarrow> (event list \<times> (error + 'a)) list \<Rightarrow> event list \<times> (error + 'a list)" where
  "gather picks coros =
     (concat (map fst coros), gather_run picks (map snd coros) (map snd coros))"

subsection \<open>The interaction\<close>

text \<open>\<open>set.update\<close> with the codes of one table; a code already present is not added.\<close>

fun set_update :: "string list \<Rightarrow> string list \<Rightarrow> string list" where
  "set_update s [] = s"
| "set_update s (x # xs) = set_update (if x \<in> set s then s else s @ [x]) xs"

definition additional_codes :: "currency_rate list \<Rightarrow> string list" where
  "additional_codes rs = map code (filter (\<lambda>c. code c \<notin> {''EUR'', ''USD''}) rs)"

fun collect_additional :: "string list \<Rightarrow> result list \<Rightarrow> string list" where
  "collect_additional additional_currencies [] = additional_currencies"
| "collect_additional additional_currencies (result # results) =
     collect_additional
       (if has_data result
        then set_update additional_currencies (additional_codes (first_rates result))
        else additional_currencies)
       results"

definition choice_prompt :: string where
  "choice_prompt = ''Do you want to see rates for other currencies? (Y/N):''"

text \<open>
  The \<open>while True\<close> loop of \<open>main\<close>. Each round reads a line, so on a finite list of
  lines it ends: with the answer N, or with \<open>EOFError\<close> when the lines run out.
\<close>

function interaction_loop ::
  "int \<Rightarrow> string list \<Rightarrow> result list \<Rightarrow> string list \<Rightarrow> event list \<times> (error + unit)" where
  "interaction_loop today additional_currencies results [] =
     ([Prompt choice_prompt], Inl EOFError)"
| "interaction_loop today additional_currencies results (choice # ins) =
     (if upper choice = ''Y'' then
        (let shown = display_additional_currencies today additional_currencies results ins
         in case snd (snd shown) of
              Inl e \<Rightarrow> (Prompt choice_prompt # fst shown, Inl e)
            | Inr u \<Rightarrow>
                (let later = interaction_loop today additional_currencies results (fst (snd shown))
                 in (Prompt choice_prompt # fst shown @ fst later, snd later)))
      else if upper choice = ''N'' then ([Prompt choice_prompt], Inr ())
      else
        (let later = interaction_loop today additional_currencies results ins
         in (Prompt choice_prompt # Line ''Incorrect selection, select 'Y' or 'N'.''
               # fst later, snd later)))"
  by pat_completeness auto
termination
proof (relation "measure (\<lambda>(today, additional_currencies, results, ins). length ins)",
    goal_cases)
  case 1
  show ?case by simp
next
  case (2 today additional_currencies results choice ins shown u)
  have "length (fst (snd (display_additional_currencies today additional_currencies results ins)))
          \<le> length ins"
    by (simp add: display_additional_currencies_def Let_def split: list.split)
  then show ?case by (simp add: 2(2) less_Suc_eq_le)
next
  case 3
  then show ?case by simp
qed

text \<open>
  \<open>UserInteraction.main\<close>. \<open>main_fetch\<close> is its first statement block: one call
  per \<open>i\<close> in \<open>range(days)\<close>, for the date \<open>i\<close> days before today, awaited together.
  An exception of \<open>gather\<close> is not caught and ends \<open>main\<close>.
\<close>

definition main_fetch ::
  "network \<Rightarrow> int \<Rightarrow> nat list \<Rightarrow> int \<Rightarrow> event list \<times> (error + result list)" where
  "main_fetch net today picks days =
     gather picks (map (\<lambda>i. get_rates net (iso_date (today - i))) [0..days - 1])"

definition main ::
  "network \<Rightarrow> int \<Rightarrow> nat list \<Rightarrow> string list \<Rightarrow> int \<Rightarrow> event list \<times> (error + unit)" where
  "main net today picks ins days =
     (let fetched = main_fetch net today picks days
      in case snd fetched of
           Inl e \<Rightarrow> (fst fetched, Inl e)
         | Inr results \<Rightarrow>
             let shown = display_basic_currencies today results;
                 additional_currencies = collect_additional [] results;
                 talked = interaction_loop today additional_currencies results ins
             in (fst fetched @ shown @ fst talked, snd talked))"

subsection \<open>The script\<close>

definition days_prompt :: string where
  "days_prompt = ''Enter the number of days (maximum 10):''"

text \<open>The \<open>try\<close> block: the number of days, or the \<open>ValueError\<close> that the handler prints.\<close>

definition read_days :: "string \<Rightarrow> error + int" where
  "read_days s =
     (case py_int s of
        None \<Rightarrow> Inl (InvalidLiteral s)
      | Some days \<Rightarrow>
          if days > 10 then Inl (ValueError ''The number of days cannot be more than 10'')
          else Inr days)"

text \<open>
  The program from its first prompt to its end. An \<open>EOFError\<close> of the first
  \<open>input\<close> is no \<open>ValueError\<close> and is not caught.
\<close>

definition program ::
  "network \<Rightarrow> int \<Rightarrow> nat list \<Rightarrow> string list \<Rightarrow> event list \<times> (error + unit)" where
  "program net today picks ins =
     (case ins of
        [] \<Rightarrow> ([Prompt days_prompt], Inl EOFError)
      | s # rest \<Rightarrow>
          (case read_days s of
             Inl e \<Rightarrow> ([Prompt days_prompt, ErrorLine e], Inr ())
           | Inr days \<Rightarrow>
               (let ran = main net today picks rest days
                in (Prompt days_prompt # fst ran, snd ran))))"

subsection \<open>BasicDisplay on the objects it is passed\<close>

text \<open>
  \<open>display_basic_currencies\<close> is handed a reference to a list that \<open>main\<close> goes on
  using, and Python would let it change that list or anything reachable from it. To
  say that it does not, the function is embedded a second time, now on a store: every
  object has an address, and the store has one component per kind of object and field,
  \<^item> \<open>slots\<close>: the elements of a list of results, each \<open>None\<close> or the address of
    a parsed body,
  \<^item> \<open>tables\<close>: the elements of a parsed body, addresses of table objects,
  \<^item> \<open>rates_field\<close>: the field \<open>rates\<close> of a table object, the address of a list,
  \<^item> \<open>entries\<close>: the elements of such a list, addresses of currency objects,
  \<^item> \<open>entry\<close>: the three fields of a currency object,
  \<^item> \<open>stdout\<close>: what has been written so far.
  A statement of the function is a step from store to store; \<open>print\<close> is \<open>emit\<close>.
\<close>

type_synonym addr = nat

record store =
  slots :: "addr \<Rightarrow> addr option list"
  tables :: "addr \<Rightarrow> addr list"
  rates_field :: "addr \<Rightarrow> addr"
  entries :: "addr \<Rightarrow> addr list"
  entry :: "addr \<Rightarrow> currency_rate"
  stdout :: "event list"

definition emit :: "event \<Rightarrow> store \<Rightarrow> store" where
  "emit e s = s\<lparr>stdout := stdout s @ [e]\<rparr>"

text \<open>
  \<open>for currency in result[0]["rates"]\<close> with its body. A list iterator keeps an index
  \<open>j\<close> and, at every step, compares it with the length the list has then and reads
  the element the list has then.
\<close>

function basic_rows_st :: "addr \<Rightarrow> nat \<Rightarrow> store \<Rightarrow> store" where
  "basic_rows_st r j s =
     (if j < length (entries s r) then
        (let currency = entry s (entries s r ! j)
         in basic_rows_st r (Suc j)
              (if code currency \<in> {''EUR'', ''USD''} then emit (Line (format_rate currency)) s
               else s))
      else s)"
  by pat_completeness auto
termination
  by (relation "measure (\<lambda>(r, j, s). length (entries s r) - j)") (auto simp: emit_def)

declare basic_rows_st.simps [simp del]

text \<open>
  The body of the outer loop for the element \<open>result\<close> with counter \<open>i\<close>: the header,
  then the rows of \<open>result[0]["rates"]\<close> if \<open>result\<close> is a list that is not
  empty, the line \<open>No data.\<close> otherwise, then the empty line.
\<close>

definition basic_day_st :: "int \<Rightarrow> nat \<Rightarrow> addr option \<Rightarrow> store \<Rightarrow> store" where
  "basic_day_st today i result s =
     (let s1 = emit (day_header today i) s;
          s2 = (case result of
                  None \<Rightarrow> emit (Line ''No data.'') s1
                | Some b \<Rightarrow>
                    (case tables s1 b of
                       [] \<Rightarrow> emit (Line ''No data.'') s1
                     | t # ts \<Rightarrow> basic_rows_st (rates_field s1 t) 0 s1))
      in emit (Line []) s2)"

text \<open>\<open>for i, result in enumerate(results, 1)\<close>: the index \<open>k\<close> of the iterator, \<open>i = k + 1\<close>.\<close>

function basic_days_st :: "int \<Rightarrow> addr \<Rightarrow> nat \<Rightarrow> store \<Rightarrow> store" where
  "basic_days_st today results k s =
     (if k < length (slots s results)
      then basic_days_st today results (Suc k)
             (basic_day_st today (Suc k) (slots s results ! k) s)
      else s)"
  by pat_completeness auto
termination
proof (relation "measure (\<lambda>(today, results, k, s). length (slots s results) - k)", goal_cases)
  case 1
  show ?case by simp
next
  case (2 today results k s)
  have rows: "slots (basic_rows_st r j s) = slots s" for r j and s :: store
  proof (induction r j s rule: basic_rows_st.induct)
    case (1 r j s)
    then show ?case
      by (subst basic_rows_st.simps) (simp add: Let_def emit_def)
  qed
  have "slots (basic_day_st today (Suc k) (slots s results ! k) s) = slots s"
    by (simp add: basic_day_st_def Let_def emit_def rows split: option.split list.split)
  with 2 show ?case by simp
qed

declare basic_days_st.simps [simp del]

definition display_basic_currencies_st :: "int \<Rightarrow> addr \<Rightarrow> store \<Rightarrow> store" where
  "display_basic_currencies_st today results s =
     (if slots s results = [] then emit (Line ''No data available.'') s
      else basic_days_st today results 0 s)"

text \<open>The value that a reference to a list of results stands for in a store.\<close>

definition load_entries :: "store \<Rightarrow> addr \<Rightarrow> currency_rate list" where
  "load_entries s r = map (entry s) (entries s r)"

definition load_table :: "store \<Rightarrow> addr \<Rightarrow> table" where
  "load_table s t = \<lparr>rates = load_entries s (rates_field s t)\<rparr>"

definition load_result :: "store \<Rightarrow> addr option \<Rightarrow> result" where
  "load_result s slot = map_option (\<lambda>b. map (load_table s) (tables s b)) slot"

definition load_results :: "store \<Rightarrow> addr \<Rightarrow> result list" where
  "load_results s results = map (load_result s) (slots s results)"

subsection \<open>What the trace holds\<close>

fun is_request :: "event \<Rightarrow> bool" where
  "is_request (Get url) = True"
| "is_request _ = False"

fun is_console :: "event \<Rightarrow> bool" where
  "is_console (Line s) = True"
| "is_console (Prompt s) = True"
| "is_console _ = False"

subsection \<open>The displays as the specification words them\<close>

text \<open>
  The specification counts days from 0: the block of day \<open>i\<close> has the label of the
  date \<open>i\<close> days before today, then the rows of the slot, then an empty line.
\<close>

definition label :: "int \<Rightarrow> nat \<Rightarrow> event" where
  "label today i = Line (''Data as of day '' @ iso_date (today - int i) @ '':'')"

definition render_days :: "int \<Rightarrow> (result \<Rightarrow> event list) \<Rightarrow> result list \<Rightarrow> event list" where
  "render_days today block results =
     concat (map (\<lambda>i. label today i # block (results ! i) @ [Line []]) [0..<length results])"

text \<open>
  BasicDisplay: a slot with a table gives one row for each entry of the table whose code
  is EUR or USD, in the order of the table; an absent or empty slot gives the line
  \<open>No data.\<close>
\<close>

definition basic_block :: "result \<Rightarrow> event list" where
  "basic_block slot =
     (case slot of
        Some (t # ts) \<Rightarrow>
          map (\<lambda>c. Line (format_rate c))
              (filter (\<lambda>c. code c = ''EUR'' \<or> code c = ''USD'') (rates t))
      | _ \<Rightarrow> [Line ''No data.''])"

definition render_basic :: "int \<Rightarrow> result list \<Rightarrow> event list" where
  "render_basic today results =
     (if results = [] then [Line ''No data available.'']
      else render_days today basic_block results)"

text \<open>
  AdditionalDisplay: a slot with a table gives the row of the first entry with the wanted
  code, or nothing when the table has none; an absent or empty slot gives \<open>No data.\<close>
\<close>

definition additional_block :: "string \<Rightarrow> result \<Rightarrow> event list" where
  "additional_block wanted slot =
     (case slot of
        Some (t # ts) \<Rightarrow>
          (case find (\<lambda>c. code c = wanted) (rates t) of
             Some c \<Rightarrow> [Line (format_rate c)]
           | None \<Rightarrow> [])
      | _ \<Rightarrow> [Line ''No data.''])"

section \<open>Properties\<close>

subsection \<open>The provider\<close>

text \<open>
  Claim C2. Whatever the date, \<open>get_rates\<close> returns the parsed body when the status
  is 200, returns \<open>None\<close> when it is 404, and for every other status raises an error
  whose message names that status; in that case it returns no value.
\<close>

theorem get_rates_by_status:
  "(status (net (API_URL @ date @ ''?format=json'')) = 200 \<longrightarrow>
      snd (get_rates net date) = Inr (Some (json (net (API_URL @ date @ ''?format=json''))))) \<and>
   (status (net (API_URL @ date @ ''?format=json'')) = 404 \<longrightarrow>
      snd (get_rates net date) = Inr None) \<and>
   (status (net (API_URL @ date @ ''?format=json'')) \<notin> {200, 404} \<longrightarrow>
      snd (get_rates net date) =
        Inl (RuntimeError (''Data download error: ''
               @ str_int (status (net (API_URL @ date @ ''?format=json''))))))"
  by (simp add: get_rates_def Let_def)

theorem get_rates_by_status_witness:
  "snd (get_rates (\<lambda>url. \<lparr>status = 200, json = [\<lparr>rates = []\<rparr>]\<rparr>) ''2026-11-03'')
     = Inr (Some [\<lparr>rates = []\<rparr>]) \<and>
   snd (get_rates (\<lambda>url. \<lparr>status = 404, json = []\<rparr>) ''2026-11-01'') = Inr None \<and>
   snd (get_rates (\<lambda>url. \<lparr>status = 503, json = []\<rparr>) ''2026-11-03'')
     = Inl (RuntimeError ''Data download error: 503'')"
  using get_rates_by_status [of "\<lambda>url. \<lparr>status = 200, json = [\<lparr>rates = []\<rparr>]\<rparr>" "''2026-11-03''"]
        get_rates_by_status [of "\<lambda>url. \<lparr>status = 404, json = []\<rparr>" "''2026-11-01''"]
        get_rates_by_status [of "\<lambda>url. \<lparr>status = 503, json = []\<rparr>" "''2026-11-03''"]
  by (simp add: str_int_def str_nat.simps digit_char_def)

subsection \<open>The loops of the displays\<close>

lemma basic_rows_filter:
  "basic_rows cs =
     map (\<lambda>c. Line (format_rate c)) (filter (\<lambda>c. code c = ''EUR'' \<or> code c = ''USD'') cs)"
  by (induction cs) auto

lemma additional_rows_find:
  "additional_rows wanted cs =
     (case find (\<lambda>c. code c = wanted) cs of Some c \<Rightarrow> [Line (format_rate c)] | None \<Rightarrow> [])"
  by (induction cs) auto

lemma basic_day_block:
  "(if has_data slot then basic_rows (first_rates slot) else [Line ''No data.''])
     = basic_block slot"
  by (cases slot rule: has_data.cases) (simp_all add: basic_block_def basic_rows_filter)

lemma additional_day_block:
  "(if has_data slot then additional_rows wanted (first_rates slot) else [Line ''No data.''])
     = additional_block wanted slot"
  by (cases slot rule: has_data.cases) (simp_all add: additional_block_def additional_rows_find)

lemma day_header_label: "day_header today (Suc i) = label today i"
  by (simp add: day_header_def label_def)

lemma upt_length_Cons: "[0..<length (r # rs)] = 0 # map Suc [0..<length rs]"
  by (simp add: upt_conv_Cons map_Suc_upt del: upt_Suc)

text \<open>The counter of \<open>enumerate\<close> runs one ahead of the index of the slot.\<close>

lemma basic_days_blocks:
  "basic_days today (Suc k) results =
     concat (map (\<lambda>i. label today (k + i) # basic_block (results ! i) @ [Line []])
                 [0..<length results])"
proof (induction results arbitrary: k)
  case Nil
  show ?case by simp
next
  case (Cons r rs)
  show ?case
    unfolding upt_length_Cons
    by (simp add: Cons.IH [of "Suc k"] basic_day_block day_header_label comp_def del: upt_Suc)
qed

lemma additional_days_blocks:
  "additional_days today wanted (Suc k) results =
     concat (map (\<lambda>i. label today (k + i) # additional_block wanted (results ! i) @ [Line []])
                 [0..<length results])"
proof (induction results arbitrary: k)
  case Nil
  show ?case by simp
next
  case (Cons r rs)
  show ?case
    unfolding upt_length_Cons
    by (simp add: Cons.IH [of "Suc k"] additional_day_block day_header_label comp_def
          del: upt_Suc)
qed

text \<open>
  Claim C4. On the empty list BasicDisplay prints \<open>No data available.\<close> and nothing
  else. Otherwise it prints, day by day, the header with the date, one row for each
  entry of the day's table whose code is EUR or USD, in the order of the table, or the
  line \<open>No data.\<close> when the day is absent or empty, and then an empty line; it prints
  nothing more and leaves nothing out.
\<close>

theorem display_basic_currencies_lines:
  "display_basic_currencies today results = render_basic today results"
  using basic_days_blocks [of today 0 results]
  by (simp add: display_basic_currencies_def render_basic_def render_days_def)

text \<open>
  Claim C5. With an empty set of codes AdditionalDisplay prints
  \<open>No additional currencies available.\<close> and returns without reading a line. With a
  set that is not empty it prompts and reads a line: when the line in capitals is not
  in the set, it prints \<open>There is no such currency on the list.\<close> and nothing else;
  when it is, it prints for every day the header, the row of the first entry with that
  code if the day's table has one, \<open>No data.\<close> if the day is absent, and an empty line.
\<close>

theorem display_additional_currencies_cases:
  "display_additional_currencies today [] results ins
     = ([Line ''No additional currencies available.''], ins, Inr ()) \<and>
   (available \<noteq> [] \<and> upper s \<notin> set available \<longrightarrow>
      display_additional_currencies today available results (s # rest)
        = ([Prompt (currency_prompt available), Line ''There is no such currency on the list.''],
           rest, Inr ())) \<and>
   (available \<noteq> [] \<and> upper s \<in> set available \<longrightarrow>
      display_additional_currencies today available results (s # rest)
        = (Prompt (currency_prompt available)
             # render_days today (additional_block (upper s)) results, rest, Inr ()))"
  using additional_days_blocks [of today "upper s" 0 results]
  by (simp add: display_additional_currencies_def render_days_def Let_def)

theorem display_additional_currencies_cases_witness:
  "[''GBP''] \<noteq> [] \<and> upper ''chf'' \<notin> set [''GBP''] \<and> upper ''gbp'' \<in> set [''GBP''] \<and>
   display_additional_currencies 739923 [''GBP'']
       [Some [\<lparr>rates = [\<lparr>currency = ''funt szterling'', code = ''GBP'', mid = ''5.1''\<rparr>]\<rparr>], None]
       [''chf'']
     = ([Prompt ''Enter the currency abbreviation (available: GBP): '',
         Line ''There is no such currency on the list.''], [], Inr ()) \<and>
   display_additional_currencies 739923 [''GBP'']
       [Some [\<lparr>rates = [\<lparr>currency = ''funt szterling'', code = ''GBP'', mid = ''5.1''\<rparr>]\<rparr>], None]
       [''gbp'']
     = ([Prompt ''Enter the currency abbreviation (available: GBP): '',
         Line ''Data as of day 2026-11-03:'',
         Line ''funt szterling                       GBP  5.1'',
         Line [],
         Line ''Data as of day 2026-11-02:'',
         Line ''No data.'',
         Line []], [], Inr ())"
proof -
  let ?rs = "[Some [\<lparr>rates = [\<lparr>currency = ''funt szterling'', code = ''GBP'', mid = ''5.1''\<rparr>]\<rparr>], None]"
  have h1: "[''GBP''] \<noteq> [] \<and> upper ''chf'' \<notin> set [''GBP'']" by code_simp
  have h2: "[''GBP''] \<noteq> [] \<and> upper ''gbp'' \<in> set [''GBP'']" by code_simp
  have p: "currency_prompt [''GBP''] = ''Enter the currency abbreviation (available: GBP): ''"
    by code_simp
  have r: "render_days 739923 (additional_block ''GBP'') ?rs
      = [Line ''Data as of day 2026-11-03:'',
         Line ''funt szterling                       GBP  5.1'',
         Line [],
         Line ''Data as of day 2026-11-02:'',
         Line ''No data.'',
         Line []]"
    by code_simp
  show ?thesis
    using h1 h2
      display_additional_currencies_cases [of 739923 ?rs "[]" "[''GBP'']" "''chf''" "[]"]
      display_additional_currencies_cases [of 739923 ?rs "[]" "[''GBP'']" "''gbp''" "[]"]
    by (simp add: p r)
qed

subsection \<open>Waiting for all calls\<close>

lemma results_of_Inr: "results_of (map Inr vs) = Inr vs"
  by (induction vs) simp_all

lemma results_of_Inl:
  "Inl e0 \<in> set children \<Longrightarrow> \<exists>e. results_of children = Inl e \<and> Inl e \<in> set children"
proof (induction children rule: results_of.induct)
  case 1
  then show ?case by simp
next
  case (2 e children)
  show ?case by simp
next
  case (3 v children)
  then show ?case by auto
qed

lemma set_without: "set (take k xs @ drop (Suc k) xs) \<subseteq> set xs"
  using set_take_subset [of k xs] set_drop_subset [of "Suc k" xs] by auto

text \<open>When no call fails, the order of completion does not show in the result.\<close>

lemma gather_run_Inr:
  "set pending \<subseteq> Inr ` set vs \<Longrightarrow> gather_run picks pending (map Inr vs) = Inr vs"
proof (induction picks pending "map Inr vs :: (error + 'a) list" rule: gather_run.induct)
  case (1 picks pending)
  show ?case
  proof (cases "pending = []")
    case True
    then show ?thesis by (simp add: gather_run.simps results_of_Inr)
  next
    case False
    define k where "k = (case picks of [] \<Rightarrow> 0 | p # _ \<Rightarrow> p) mod length pending"
    from False have "k < length pending" by (simp add: k_def)
    then have "pending ! k \<in> set pending" by simp
    with "1.prems" obtain v where v: "pending ! k = Inr v" by auto
    have "set (take k pending @ drop (Suc k) pending) \<subseteq> Inr ` set vs"
      using set_without [of k pending] "1.prems" by blast
    with "1.hyps" [OF False k_def v]
    have "gather_run (tl picks) (take k pending @ drop (Suc k) pending) (map Inr vs) = Inr vs"
      by simp
    with False v show ?thesis
      by (subst gather_run.simps) (simp add: k_def [symmetric])
  qed
qed

text \<open>When a call fails, \<open>gather\<close> raises the error of a call that failed.\<close>

lemma gather_run_Inl:
  "Inl e0 \<in> set children \<Longrightarrow> set pending \<subseteq> set children
     \<Longrightarrow> \<exists>e. gather_run picks pending children = Inl e \<and> Inl e \<in> set children"
proof (induction picks pending children rule: gather_run.induct)
  case (1 picks pending children)
  show ?case
  proof (cases "pending = []")
    case True
    with results_of_Inl [OF "1.prems"(1)] show ?thesis by (simp add: gather_run.simps)
  next
    case False
    define k where "k = (case picks of [] \<Rightarrow> 0 | p # _ \<Rightarrow> p) mod length pending"
    from False have "k < length pending" by (simp add: k_def)
    then have mem: "pending ! k \<in> set pending" by simp
    show ?thesis
    proof (cases "pending ! k")
      case (Inl e)
      with mem "1.prems"(2) have "Inl e \<in> set children" by auto
      with False Inl show ?thesis
        by (subst gather_run.simps) (simp add: k_def [symmetric])
    next
      case (Inr v)
      have "set (take k pending @ drop (Suc k) pending) \<subseteq> set children"
        using set_without [of k pending] "1.prems"(2) by blast
      with "1.IH" [OF False k_def Inr "1.prems"(1)]
      obtain e where "gather_run (tl picks) (take k pending @ drop (Suc k) pending) children = Inl e"
        and "Inl e \<in> set children" by blast
      with False Inr show ?thesis
        by (subst gather_run.simps) (simp add: k_def [symmetric])
    qed
  qed
qed

text \<open>\<open>range(days)\<close> counts from 0 to \<open>days - 1\<close>.\<close>

lemma range_days: "0 \<le> days \<Longrightarrow> [0..days - 1] = map int [0..<nat days]"
proof (induction "nat days" arbitrary: days)
  case 0
  then show ?case by simp
next
  case (Suc n)
  then have n: "n = nat (days - 1)" and pos: "0 \<le> days - 1" by linarith+
  from Suc.hyps(1) [OF n pos] have "[0..days - 1 - 1] = map int [0..<nat (days - 1)]" .
  moreover have "[0..days - 1] = [0..days - 1 - 1] @ [days - 1]"
    using pos upto_rec2 [of 0 "days - 1"] by simp
  moreover have "[0..<nat days] = [0..<nat (days - 1)] @ [nat (days - 1)]"
    using Suc.hyps(2) n by (metis upt_Suc_append zero_le)
  ultimately show ?case using pos by simp
qed

text \<open>
  Claim C1. For a number of days from 1 to 10, when every call of \<open>get_rates\<close>
  returns, the first block of \<open>main\<close> yields a list of exactly that many results; its
  slot \<open>i\<close> is what \<open>get_rates\<close> returned for the date \<open>i\<close> days before today,
  whatever the order in which the calls completed.
\<close>

theorem main_fetch_request_order:
  assumes "1 \<le> days" and "days \<le> 10"
    and "\<forall>i\<in>{0..<days}. \<exists>r. snd (get_rates net (iso_date (today - i))) = Inr r"
  shows "\<exists>results.
           (\<forall>picks. snd (main_fetch net today picks days) = Inr results) \<and>
           int (length results) = days \<and>
           (\<forall>i\<in>{0..<days}. snd (get_rates net (iso_date (today - i))) = Inr (results ! nat i))"
proof -
  define call where "call i = snd (get_rates net (iso_date (today - i)))" for i
  define results where "results = map (\<lambda>i. projr (call i)) [0..days - 1]"
  have ok: "call i = Inr (projr (call i))" if "i \<in> set [0..days - 1]" for i
  proof -
    from that have "i \<in> {0..<days}" by auto
    with assms(3) obtain r where "call i = Inr r" unfolding call_def by blast
    then show ?thesis by simp
  qed
  have children: "map (\<lambda>i. call i) [0..days - 1] = map Inr results"
    using ok by (simp add: results_def)
  have "snd (main_fetch net today picks days) = Inr results" for picks
    using gather_run_Inr [of "map Inr results" results picks]
    by (simp add: main_fetch_def gather_def comp_def call_def [symmetric] children)
  moreover have "int (length results) = days"
    using assms(1) by (simp add: results_def)
  moreover have "call i = Inr (results ! nat i)" if "i \<in> {0..<days}" for i
  proof -
    from that have "nat i < nat days" and "0 \<le> i" by auto
    then have "results ! nat i = projr (call i)"
      using assms(1) by (simp add: results_def range_days)
    with ok [of i] that show ?thesis by simp
  qed
  ultimately show ?thesis unfolding call_def by blast
qed

theorem main_fetch_request_order_witness:
  "(1::int) \<le> 3 \<and> (3::int) \<le> 10 \<and>
   (\<forall>picks. snd (main_fetch
       (\<lambda>url. if url = ''https://api.nbp.pl/api/exchangerates/tables/a/2026-11-02?format=json''
               then \<lparr>status = 200, json = [\<lparr>rates = []\<rparr>]\<rparr> else \<lparr>status = 404, json = []\<rparr>)
       739923 picks 3) = Inr [None, Some [\<lparr>rates = []\<rparr>], None])"
proof -
  let ?net = "\<lambda>url. if url = ''https://api.nbp.pl/api/exchangerates/tables/a/2026-11-02?format=json''
               then \<lparr>status = 200, json = [\<lparr>rates = []\<rparr>]\<rparr> else \<lparr>status = 404, json = []\<rparr>"
  have h: "\<forall>i\<in>{0..<3::int}. \<exists>r. snd (get_rates ?net (iso_date (739923 - i))) = Inr r"
    by (simp add: get_rates_def Let_def)
  have g0: "snd (get_rates ?net (iso_date (739923 - 0))) = Inr None"
    and g1: "snd (get_rates ?net (iso_date (739923 - 1))) = Inr (Some [\<lparr>rates = []\<rparr>])"
    and g2: "snd (get_rates ?net (iso_date (739923 - 2))) = Inr None"
    by code_simp+
  from main_fetch_request_order [of 3 ?net 739923, OF _ _ h]
  obtain results where all: "\<forall>picks. snd (main_fetch ?net 739923 picks 3) = Inr results"
    and len: "int (length results) = 3"
    and nth: "\<forall>i\<in>{0..<3::int}. snd (get_rates ?net (iso_date (739923 - i))) = Inr (results ! nat i)"
    by auto
  from len obtain a b c where abc: "results = [a, b, c]"
    by (auto simp: length_Suc_conv numeral_3_eq_3)
  from nth [rule_format, of 0] nth [rule_format, of 1] nth [rule_format, of 2]
  have "results ! 0 = None" "results ! 1 = Some [\<lparr>rates = []\<rparr>]" "results ! 2 = None"
    unfolding g0 g1 g2 by simp_all
  with abc have "results = [None, Some [\<lparr>rates = []\<rparr>], None]"
    by simp
  with all show ?thesis by simp
qed

text \<open>
  Claim C6. When one of the calls of \<open>get_rates\<close> fails, \<open>main\<close> fails as a whole
  with the error of a call that failed: apart from the requests, its trace is empty, so
  no list of results, not even a partial one, reaches a display.
\<close>

theorem main_fails_with_any_call:
  assumes "0 \<le> i" and "i < days"
    and "snd (get_rates net (iso_date (today - i))) = Inl e0"
  shows "\<exists>e j. j \<in> {0..<days} \<and> snd (get_rates net (iso_date (today - j))) = Inl e \<and>
           snd (main_fetch net today picks days) = Inl e \<and>
           main net today picks ins days
             = (map (\<lambda>j. Get (API_URL @ iso_date (today - j) @ ''?format=json'')) [0..days - 1],
                Inl e)"
proof -
  define children where
    "children = map (\<lambda>j. snd (get_rates net (iso_date (today - j)))) [0..days - 1]"
  have "Inl e0 \<in> set children"
    using assms by (force simp: children_def)
  from gather_run_Inl [OF this subset_refl, of picks]
  obtain e where run: "gather_run picks children children = Inl e" and "Inl e \<in> set children"
    by blast
  then obtain j where j: "j \<in> {0..<days}" "snd (get_rates net (iso_date (today - j))) = Inl e"
    by (auto simp: children_def)
  have gets: "fst (main_fetch net today picks days)
      = map (\<lambda>j. Get (API_URL @ iso_date (today - j) @ ''?format=json'')) [0..days - 1]"
    by (simp add: main_fetch_def gather_def comp_def get_rates_def Let_def)
  have fetch: "snd (main_fetch net today picks days) = Inl e"
    using run by (simp add: main_fetch_def gather_def comp_def children_def)
  have "main net today picks ins days = (fst (main_fetch net today picks days), Inl e)"
    using fetch by (simp add: main_def Let_def)
  with gets fetch j show ?thesis by auto
qed

theorem main_fails_with_any_call_witness:
  "(0::int) \<le> 1 \<and> (1::int) < 2 \<and>
   snd (get_rates (\<lambda>url. \<lparr>status = 500, json = []\<rparr>) (iso_date (739923 - 1)))
     = Inl (RuntimeError ''Data download error: 500'') \<and>
   main (\<lambda>url. \<lparr>status = 500, json = []\<rparr>) 739923 [1, 0] [''y'', ''n''] 2
     = ([Get ''https://api.nbp.pl/api/exchangerates/tables/a/2026-11-03?format=json'',
         Get ''https://api.nbp.pl/api/exchangerates/tables/a/2026-11-02?format=json''],
        Inl (RuntimeError ''Data download error: 500''))"
proof -
  let ?net = "\<lambda>url :: string. \<lparr>status = 500, json = []\<rparr>"
  have any: "snd (get_rates ?net date) = Inl (RuntimeError ''Data download error: 500'')" for date
    by (simp add: get_rates_def Let_def str_int_def str_nat.simps digit_char_def)
  have gets: "map (\<lambda>j. Get (API_URL @ iso_date (739923 - j) @ ''?format=json'')) [0..2 - 1]
      = [Get ''https://api.nbp.pl/api/exchangerates/tables/a/2026-11-03?format=json'',
         Get ''https://api.nbp.pl/api/exchangerates/tables/a/2026-11-02?format=json'']"
    by code_simp
  from main_fails_with_any_call [of 1 2 ?net 739923 _ "[1, 0]" "[''y'', ''n'']", OF _ _ any]
  show ?thesis unfolding any gets by auto
qed

subsection \<open>Absent and empty slots\<close>

lemma basic_days_append:
  "basic_days today i (xs @ ys) = basic_days today i xs @ basic_days today (i + length xs) ys"
  by (induction xs arbitrary: i) simp_all

lemma additional_days_append:
  "additional_days today wanted i (xs @ ys)
     = additional_days today wanted i xs @ additional_days today wanted (i + length xs) ys"
  by (induction xs arbitrary: i) simp_all

lemma length_format_rate: "42 \<le> length (format_rate c)"
  by (simp add: format_rate_def ljust_def)

lemma format_rate_not_no_data: "format_rate c \<noteq> ''No data.''"
  using length_format_rate [of c] by auto

lemma basic_rows_not_no_data: "basic_rows cs @ Line [] # rest \<noteq> Line ''No data.'' # rest'"
  by (induction cs) (auto simp: format_rate_not_no_data)

lemma additional_rows_not_no_data:
  "additional_rows wanted cs @ Line [] # rest \<noteq> Line ''No data.'' # rest'"
  by (induction cs) (auto simp: format_rate_not_no_data)

text \<open>
  Claim C3, as the program has it. An absent slot and a slot that is present but empty
  (the empty list) render alike in both displays, as the line \<open>No data.\<close>; a slot
  that holds a table renders differently from an absent one: in BasicDisplay always, in
  AdditionalDisplay whenever the days are rendered, that is when the code read is in a
  set of codes that is not empty.
\<close>

theorem slot_rendering:
  "display_basic_currencies today (pre @ None # post)
     = display_basic_currencies today (pre @ Some [] # post) \<and>
   display_additional_currencies today available (pre @ None # post) ins
     = display_additional_currencies today available (pre @ Some [] # post) ins \<and>
   display_basic_currencies today (pre @ Some (t # ts) # post)
     \<noteq> display_basic_currencies today (pre @ None # post) \<and>
   (available \<noteq> [] \<and> upper s \<in> set available \<longrightarrow>
      fst (display_additional_currencies today available (pre @ Some (t # ts) # post) (s # rest))
        \<noteq> fst (display_additional_currencies today available (pre @ None # post) (s # rest)))"
  by (simp add: display_basic_currencies_def display_additional_currencies_def Let_def
        basic_days_append additional_days_append basic_rows_not_no_data
        additional_rows_not_no_data split: list.split)

theorem slot_rendering_witness:
  "[''GBP''] \<noteq> [] \<and> upper ''gbp'' \<in> set [''GBP''] \<and>
   fst (display_additional_currencies 739923 [''GBP''] [Some [\<lparr>rates = []\<rparr>]] [''gbp''])
     \<noteq> fst (display_additional_currencies 739923 [''GBP''] [None] [''gbp''])"
proof -
  have h: "[''GBP''] \<noteq> [] \<and> upper ''gbp'' \<in> set [''GBP'']" by code_simp
  note inst = slot_rendering [where today = 739923 and pre = "[]" and post = "[]"
      and available = "[''GBP'']" and s = "''gbp''" and rest = "[]" and ins = "[]"
      and t = "\<lparr>rates = []\<rparr>" and ts = "[]", unfolded append_Nil]
  from inst h show ?thesis by blast
qed

text \<open>
  Claim C3 as it was stated fails: with one day, absent or present and empty, both
  displays write the same. Even a day whose table has no rates cannot be told from an
  absent day in AdditionalDisplay when it is called with the codes that \<open>main\<close>
  collects from these results, since there are none.
\<close>

theorem absent_and_empty_slot_render_alike:
  "display_basic_currencies 739923 [None] = display_basic_currencies 739923 [Some []] \<and>
   display_basic_currencies 739923 [Some []]
     = [Line ''Data as of day 2026-11-03:'', Line ''No data.'', Line []] \<and>
   display_additional_currencies 739923 [''GBP''] [None] [''gbp'']
     = display_additional_currencies 739923 [''GBP''] [Some []] [''gbp''] \<and>
   display_additional_currencies 739923 [''GBP''] [Some []] [''gbp'']
     = ([Prompt ''Enter the currency abbreviation (available: GBP): '',
         Line ''Data as of day 2026-11-03:'', Line ''No data.'', Line []], [], Inr ()) \<and>
   display_additional_currencies 739923 (collect_additional [] [None]) [None] [''gbp'']
     = display_additional_currencies 739923
         (collect_additional [] [Some [\<lparr>rates = []\<rparr>]]) [Some [\<lparr>rates = []\<rparr>]] [''gbp'']"
  by code_simp

subsection \<open>Capitals\<close>

lemma upper_char_idem: "upper_char (upper_char c) = upper_char c"
proof (cases "97 \<le> (of_char c :: nat) \<and> (of_char c :: nat) \<le> 122")
  case True
  then have "(of_char c - 32 :: nat) < 256" by arith
  then have "(of_char c - 32 :: nat) mod 256 = of_char c - 32" by (rule mod_less)
  moreover from True have "\<not> 97 \<le> (of_char c - 32 :: nat)" by arith
  ultimately show ?thesis using True by (simp add: upper_char_def Let_def)
next
  case False
  then have "upper_char c = c" by (auto simp: upper_char_def Let_def)
  then show ?thesis by simp
qed

lemma upper_idem: "upper (upper s) = upper s"
  by (simp add: upper_def upper_char_idem)

text \<open>
  Claim C8. Both answers are read in capitals. The loop treats \<open>y\<close> as \<open>Y\<close> and
  \<open>n\<close> as \<open>N\<close>, and any answer as its capitals; AdditionalDisplay, when it reads a
  line, treats it as its capitals, so that \<open>gbp\<close> finds \<open>GBP\<close> when \<open>GBP\<close> is
  available and the days are rendered for it.
\<close>

theorem inputs_upper_case:
  "interaction_loop today available results (''y'' # ins)
     = interaction_loop today available results (''Y'' # ins) \<and>
   interaction_loop today available results (''n'' # ins)
     = interaction_loop today available results (''N'' # ins) \<and>
   interaction_loop today available results (choice # ins)
     = interaction_loop today available results (upper choice # ins) \<and>
   (available \<noteq> [] \<longrightarrow>
      display_additional_currencies today available results (s # ins)
        = display_additional_currencies today available results (upper s # ins)) \<and>
   (''GBP'' \<in> set available \<longrightarrow>
      display_additional_currencies today available results (''gbp'' # ins)
        = (Prompt (currency_prompt available) # additional_days today ''GBP'' 1 results,
           ins, Inr ()))"
proof -
  have "upper ''GBP'' = ''GBP''" "upper ''gbp'' = ''GBP''" "upper ''y'' = ''Y''"
    "upper ''Y'' = ''Y''" "upper ''n'' = ''N''" "upper ''N'' = ''N''"
    by code_simp+
  then show ?thesis
    by (auto simp: display_additional_currencies_def Let_def upper_idem)
qed

theorem inputs_upper_case_witness:
  "[''CHF'', ''GBP''] \<noteq> [] \<and> ''GBP'' \<in> set [''CHF'', ''GBP''] \<and>
   display_additional_currencies 739923 [''CHF'', ''GBP'']
       [Some [\<lparr>rates = [\<lparr>currency = ''funt szterling'', code = ''GBP'', mid = ''5.1''\<rparr>]\<rparr>]]
       [''gbp'', ''n'']
     = ([Prompt ''Enter the currency abbreviation (available: CHF, GBP): '',
         Line ''Data as of day 2026-11-03:'',
         Line ''funt szterling                       GBP  5.1'',
         Line []], [''n''], Inr ()) \<and>
   display_additional_currencies 739923 [''CHF'', ''GBP'']
       [Some [\<lparr>rates = [\<lparr>currency = ''funt szterling'', code = ''GBP'', mid = ''5.1''\<rparr>]\<rparr>]]
       [''gbp'', ''n'']
     = display_additional_currencies 739923 [''CHF'', ''GBP'']
       [Some [\<lparr>rates = [\<lparr>currency = ''funt szterling'', code = ''GBP'', mid = ''5.1''\<rparr>]\<rparr>]]
       [upper ''gbp'', ''n'']"
proof -
  let ?rs = "[Some [\<lparr>rates = [\<lparr>currency = ''funt szterling'', code = ''GBP'', mid = ''5.1''\<rparr>]\<rparr>]]"
  have h: "[''CHF'', ''GBP''] \<noteq> [] \<and> ''GBP'' \<in> set [''CHF'', ''GBP'']" by simp
  have p: "currency_prompt [''CHF'', ''GBP'']
      = ''Enter the currency abbreviation (available: CHF, GBP): ''"
    by code_simp
  have r: "additional_days 739923 ''GBP'' 1 ?rs
      = [Line ''Data as of day 2026-11-03:'',
         Line ''funt szterling                       GBP  5.1'',
         Line []]"
    by code_simp
  note inst = inputs_upper_case [where today = 739923 and available = "[''CHF'', ''GBP'']"
      and results = ?rs and ins = "[''n'']" and s = "''gbp''" and choice = "''y''"]
  from inst h have
    "display_additional_currencies 739923 [''CHF'', ''GBP''] ?rs [''gbp'', ''n'']
       = display_additional_currencies 739923 [''CHF'', ''GBP''] ?rs [upper ''gbp'', ''n'']"
    and "display_additional_currencies 739923 [''CHF'', ''GBP''] ?rs [''gbp'', ''n'']
       = (Prompt (currency_prompt [''CHF'', ''GBP'']) # additional_days 739923 ''GBP'' 1 ?rs,
          [''n''], Inr ())"
    by blast+
  with h show ?thesis unfolding p r by blast
qed

subsection \<open>The number of days\<close>

lemma additional_rows_console: "list_all is_console (additional_rows wanted cs)"
  by (induction cs) simp_all

lemma additional_days_console: "list_all is_console (additional_days today wanted i results)"
  by (induction results arbitrary: i) (simp_all add: day_header_def additional_rows_console)

lemma display_additional_console:
  "list_all is_console (fst (display_additional_currencies today available results ins))"
  by (simp add: display_additional_currencies_def Let_def additional_days_console
        split: list.split)

text \<open>The loop only prints and prompts.\<close>

lemma interaction_loop_console:
  "list_all is_console (fst (interaction_loop today available results ins))"
proof (induction today available results ins rule: interaction_loop.induct)
  case (1 today available results)
  show ?case by simp
next
  case (2 today available results choice ins)
  then show ?case
    by (auto simp: Let_def display_additional_console split: sum.split)
qed

lemma console_no_request: "list_all is_console es \<Longrightarrow> filter is_request es = []"
  by (induction es) (auto elim: is_console.elims)

lemma console_no_error: "list_all is_console es \<Longrightarrow> ErrorLine e \<notin> set es"
  by (induction es) auto

text \<open>
  Claim C7. When the first line is no integer, or is an integer above 10, the program
  prints the error and ends; it requests nothing from the network.
\<close>

theorem invalid_days_no_fetch:
  "(py_int s = None \<longrightarrow>
      program net today picks (s # rest)
        = ([Prompt days_prompt, ErrorLine (InvalidLiteral s)], Inr ())) \<and>
   (py_int s = Some days \<and> 10 < days \<longrightarrow>
      program net today picks (s # rest)
        = ([Prompt days_prompt,
            ErrorLine (ValueError ''The number of days cannot be more than 10'')], Inr ())) \<and>
   (py_int s = None \<or> (py_int s = Some days \<and> 10 < days) \<longrightarrow>
      filter is_request (fst (program net today picks (s # rest))) = [])"
  by (auto simp: program_def read_days_def)

theorem invalid_days_no_fetch_witness:
  "py_int ''ten'' = None \<and> py_int ''11'' = Some 11 \<and> (10::int) < 11 \<and>
   program (\<lambda>url. \<lparr>status = 200, json = []\<rparr>) 739923 [] [''ten'', ''y'']
     = ([Prompt days_prompt, ErrorLine (InvalidLiteral ''ten'')], Inr ()) \<and>
   program (\<lambda>url. \<lparr>status = 200, json = []\<rparr>) 739923 [] [''11'', ''y'']
     = ([Prompt days_prompt,
         ErrorLine (ValueError ''The number of days cannot be more than 10'')], Inr ()) \<and>
   filter is_request (fst (program (\<lambda>url. \<lparr>status = 200, json = []\<rparr>) 739923 [] [''ten'', ''y''])) = [] \<and>
   filter is_request (fst (program (\<lambda>url. \<lparr>status = 200, json = []\<rparr>) 739923 [] [''11'', ''y''])) = []"
proof -
  have h1: "py_int ''ten'' = None" by code_simp
  have h2: "py_int ''11'' = Some 11 \<and> (10::int) < 11" by code_simp
  note a = invalid_days_no_fetch [where s = "''ten''" and days = 11 and today = 739923
      and net = "\<lambda>url. \<lparr>status = 200, json = []\<rparr>" and picks = "[]" and rest = "[''y'']"]
  note b = invalid_days_no_fetch [where s = "''11''" and days = 11 and today = 739923
      and net = "\<lambda>url. \<lparr>status = 200, json = []\<rparr>" and picks = "[]" and rest = "[''y'']"]
  from a b h1 h2 show ?thesis by blast
qed

text \<open>
  Claim C10. When the first line is an integer that is zero or negative, the program
  reports no error: only numbers above 10 are refused. It requests nothing from the
  network, BasicDisplay prints \<open>No data available.\<close> for the empty list of results, and
  the loop follows with no codes on offer.
\<close>

theorem days_not_positive:
  "py_int s = Some days \<and> days \<le> 0 \<longrightarrow>
     program net today picks (s # rest)
       = (Prompt days_prompt # Line ''No data available.''
            # fst (interaction_loop today [] [] rest),
          snd (interaction_loop today [] [] rest)) \<and>
     filter is_request (fst (program net today picks (s # rest))) = [] \<and>
     (\<forall>e. ErrorLine e \<notin> set (fst (program net today picks (s # rest))))"
proof
  assume a: "py_int s = Some days \<and> days \<le> 0"
  then have fetch: "main_fetch net today picks days = ([], Inr [])"
    by (simp add: main_fetch_def gather_def gather_run.simps)
  have prog: "program net today picks (s # rest)
       = (Prompt days_prompt # Line ''No data available.''
            # fst (interaction_loop today [] [] rest),
          snd (interaction_loop today [] [] rest))"
    using a fetch
    by (simp add: program_def read_days_def main_def Let_def display_basic_currencies_def)
  show "program net today picks (s # rest)
       = (Prompt days_prompt # Line ''No data available.''
            # fst (interaction_loop today [] [] rest),
          snd (interaction_loop today [] [] rest)) \<and>
     filter is_request (fst (program net today picks (s # rest))) = [] \<and>
     (\<forall>e. ErrorLine e \<notin> set (fst (program net today picks (s # rest))))"
    using interaction_loop_console [of today "[]" "[]" rest]
    by (simp add: prog console_no_request console_no_error)
qed

theorem days_not_positive_witness:
  "py_int ''-3'' = Some (- 3) \<and> (- 3 :: int) \<le> 0 \<and>
   program (\<lambda>url. \<lparr>status = 200, json = []\<rparr>) 739923 [] [''-3'', ''y'', ''n'']
     = ([Prompt days_prompt, Line ''No data available.'',
         Prompt choice_prompt, Line ''No additional currencies available.'',
         Prompt choice_prompt], Inr ()) \<and>
   filter is_request
     (fst (program (\<lambda>url. \<lparr>status = 200, json = []\<rparr>) 739923 [] [''-3'', ''y'', ''n''])) = []"
proof -
  have h: "py_int ''-3'' = Some (- 3) \<and> (- 3 :: int) \<le> 0" by code_simp
  have l: "interaction_loop 739923 [] [] [''y'', ''n'']
      = ([Prompt choice_prompt, Line ''No additional currencies available.'',
          Prompt choice_prompt], Inr ())"
    by code_simp
  note inst = days_not_positive [where s = "''-3''" and days = "- 3" and today = 739923
      and net = "\<lambda>url. \<lparr>status = 200, json = []\<rparr>" and picks = "[]" and rest = "[''y'', ''n'']",
      unfolded l fst_conv snd_conv]
  from inst h show ?thesis by blast
qed

subsection \<open>BasicDisplay leaves its argument alone\<close>

lemma load_table_stdout: "load_table (s\<lparr>stdout := out\<rparr>) = load_table s"
  by (rule ext) (simp add: load_table_def load_entries_def)

lemma load_results_stdout [simp]:
  "load_results (s\<lparr>stdout := out\<rparr>) results = load_results s results"
  by (simp add: load_results_def load_result_def load_table_stdout)

lemma basic_rows_st_eq:
  "basic_rows_st r j s = s\<lparr>stdout := stdout s @ basic_rows (drop j (load_entries s r))\<rparr>"
proof (induction r j s rule: basic_rows_st.induct)
  case (1 r j s)
  show ?case
  proof (cases "j < length (entries s r)")
    case False
    then show ?thesis by (subst basic_rows_st.simps) (simp add: load_entries_def)
  next
    case True
    define c where "c = entry s (entries s r ! j)"
    have d: "drop j (map (entry s) (entries s r))
        = c # drop (Suc j) (map (entry s) (entries s r))"
      using True Cons_nth_drop_Suc [of j "map (entry s) (entries s r)"] by (simp add: c_def)
    show ?thesis
    proof (cases "code c \<in> {''EUR'', ''USD''}")
      case yes: True
      with True "1.IH" [OF True refl] show ?thesis
        by (subst basic_rows_st.simps)
           (simp add: d Let_def emit_def load_entries_def c_def [symmetric])
    next
      case no: False
      with True "1.IH" [OF True refl] show ?thesis
        by (subst basic_rows_st.simps)
           (simp add: d Let_def load_entries_def c_def [symmetric])
    qed
  qed
qed

lemma basic_day_st_eq:
  "basic_day_st today i result s =
     s\<lparr>stdout := stdout s @ day_header today i
        # (if has_data (load_result s result) then basic_rows (first_rates (load_result s result))
           else [Line ''No data.'']) @ [Line []]\<rparr>"
proof (cases result)
  case None
  then show ?thesis by (simp add: basic_day_st_def Let_def emit_def load_result_def)
next
  case (Some b)
  show ?thesis
  proof (cases "tables s b")
    case Nil
    with Some show ?thesis by (simp add: basic_day_st_def Let_def emit_def load_result_def)
  next
    case (Cons t ts)
    with Some show ?thesis
      by (simp add: basic_day_st_def Let_def emit_def load_result_def basic_rows_st_eq
            load_table_def load_entries_def)
  qed
qed

lemma basic_days_st_eq:
  "basic_days_st today results k s =
     s\<lparr>stdout := stdout s @ basic_days today (Suc k) (drop k (load_results s results))\<rparr>"
proof (induction today results k s rule: basic_days_st.induct)
  case (1 today results k s)
  show ?case
  proof (cases "k < length (slots s results)")
    case False
    then show ?thesis by (subst basic_days_st.simps) (simp add: load_results_def)
  next
    case True
    have d: "drop k (load_results s results)
        = load_result s (slots s results ! k) # drop (Suc k) (load_results s results)"
      using True Cons_nth_drop_Suc [of k "load_results s results"]
      by (simp add: load_results_def)
    from True "1.IH" [OF True] show ?thesis
      by (subst basic_days_st.simps) (simp add: d basic_day_st_eq)
  qed
qed

lemma display_basic_currencies_st_eq:
  "display_basic_currencies_st today results s =
     s\<lparr>stdout := stdout s @ display_basic_currencies today (load_results s results)\<rparr>"
  by (simp add: display_basic_currencies_st_def display_basic_currencies_def emit_def
        basic_days_st_eq load_results_def)

text \<open>
  Claim C9. A call of BasicDisplay changes nothing in the store but the output: the
  list it was passed, and every object reachable from it, is after the call what it was
  before. Hence a second call on the same list writes what the first call wrote:
  after both, the output is the output before, followed twice by the rendering of the
  list. (\<open>TODAY\<close> is computed once, when the module is loaded; both calls count the
  days from the same date.)
\<close>

theorem display_basic_twice:
  "display_basic_currencies_st today results s
     = s\<lparr>stdout := stdout s @ display_basic_currencies today (load_results s results)\<rparr> \<and>
   load_results (display_basic_currencies_st today results s) results = load_results s results \<and>
   display_basic_currencies_st today results (display_basic_currencies_st today results s)
     = s\<lparr>stdout := stdout s @ display_basic_currencies today (load_results s results)
                             @ display_basic_currencies today (load_results s results)\<rparr>"
  by (simp add: display_basic_currencies_st_eq)

theorem display_basic_twice_witness:
  "stdout (display_basic_currencies_st 739923 0 (display_basic_currencies_st 739923 0
      \<lparr>slots = (\<lambda>a. if a = 0 then [Some 1, None] else []),
       tables = (\<lambda>a. if a = 1 then [2] else []),
       rates_field = (\<lambda>a. 3),
       entries = (\<lambda>a. if a = 3 then [4, 5] else []),
       entry = (\<lambda>a. if a = 4 then \<lparr>currency = ''euro'', code = ''EUR'', mid = ''4.3''\<rparr>
                      else \<lparr>currency = ''funt szterling'', code = ''GBP'', mid = ''5.1''\<rparr>),
       stdout = [Prompt days_prompt]\<rparr>))
     = [Prompt days_prompt,
        Line ''Data as of day 2026-11-03:'',
        Line ''euro                                 EUR  4.3'',
        Line [],
        Line ''Data as of day 2026-11-02:'',
        Line ''No data.'',
        Line [],
        Line ''Data as of day 2026-11-03:'',
        Line ''euro                                 EUR  4.3'',
        Line [],
        Line ''Data as of day 2026-11-02:'',
        Line ''No data.'',
        Line []]"
proof -
  let ?s = "\<lparr>slots = (\<lambda>a. if a = 0 then [Some 1, None] else []),
       tables = (\<lambda>a. if a = 1 then [2] else []),
       rates_field = (\<lambda>a. 3),
       entries = (\<lambda>a. if a = 3 then [4, 5] else []),
       entry = (\<lambda>a. if a = 4 then \<lparr>currency = ''euro'', code = ''EUR'', mid = ''4.3''\<rparr>
                      else \<lparr>currency = ''funt szterling'', code = ''GBP'', mid = ''5.1''\<rparr>),
       stdout = [Prompt days_prompt]\<rparr>"
  have d: "display_basic_currencies 739923 (load_results ?s 0)
      = [Line ''Data as of day 2026-11-03:'',
         Line ''euro                                 EUR  4.3'',
         Line [],
         Line ''Data as of day 2026-11-02:'',
         Line ''No data.'',
         Line []]"
    by code_simp
  note inst = display_basic_twice [of 739923 0 ?s, unfolded d]
  from inst have "display_basic_currencies_st 739923 0 (display_basic_currencies_st 739923 0 ?s)
      = ?s\<lparr>stdout := stdout ?s
           @ [Line ''Data as of day 2026-11-03:'',
              Line ''euro                                 EUR  4.3'',
              Line [],
              Line ''Data as of day 2026-11-02:'',
              Line ''No data.'',
              Line []]
           @ [Line ''Data as of day 2026-11-03:'',
              Line ''euro                                 EUR  4.3'',
              Line [],
              Line ''Data as of day 2026-11-02:'',
              Line ''No data.'',
              Line []]\<rparr>"
    by (rule conjunct2 [THEN conjunct2])
  then show ?thesis by simp
qed

end
